theory Spec2Isabelle
  imports Main
begin

section \<open>Birdwatch: the seat watcher (src/middleware/watcher.ts)\<close>

text \<open>
  The watcher keeps a table of subscriptions (one row per course registration number, CRN,
  holding the subscribed email addresses), fetches the course catalogue, mails the
  subscribers of every section that has a free seat and deletes the row of such a section.
  The embedding below follows \<^verbatim>\<open>class Watcher\<close>: the object's fields and the
  collaborators it writes to (the \<^verbatim>\<open>watchers\<close> table, the mail transport, the
  console) are one state record that every method takes and returns; the answers of the
  outside world (the two HTTP requests, the outcome of a mail send) are a parameter.
  Promises are run in program order: a send or a delete that the source starts without
  awaiting it is carried out at the place where it is started. JavaScript numbers are
  integers here, as they are in the catalogue's JSON. The statements on the table always
  succeed. \<^verbatim>\<open>init\<close> and \<^verbatim>\<open>watch\<close>, which only start scans (once at start-up,
  then every thirty minutes), are not part of the embedding.
\<close>

subsection \<open>Data\<close>

record Section =
  sec :: string
  cap :: int
  rem :: int
  crn :: int

record Course =
  crse :: string
  course_id :: string
  sections :: "Section list"
  title :: string

record Department =
  code :: string
  courses :: "Course list"

text \<open>A row of the table \<^verbatim>\<open>watchers\<close>; the column \<^verbatim>\<open>emails\<close> is an SQL array.\<close>

record WatcherRow =
  row_crn :: int
  emails :: "string list"

text \<open>One entry of the listing of \<^verbatim>\<open>semester_data\<close>; only \<^verbatim>\<open>path\<close> is read.\<close>

record Semester =
  path :: string

text \<open>The message handed to \<^verbatim>\<open>transporter.sendMail\<close>.\<close>

record Mail =
  mail_to :: string
  from_name :: string
  from_address :: string
  subject :: string
  mail_text :: string

datatype error =
    FetchError      \<comment> \<open>a rejected \<^verbatim>\<open>axios.get\<close>\<close>
  | TypeError       \<comment> \<open>a property read on \<^verbatim>\<open>undefined\<close>\<close>
  | NotFound        \<comment> \<open>\<^verbatim>\<open>Error('not found')\<close>\<close>
  | MailError       \<comment> \<open>the error passed to the callback of \<^verbatim>\<open>sendMail\<close>\<close>

datatype log_entry = Info string | Log string | Err error

text \<open>
  What the outside answers during one call: the listing of the data releases, the course
  file of a release (by the path of the release) and, for a message, the error of its
  delivery if there is one. \<^verbatim>\<open>MAILER_USER\<close> comes from the environment.
\<close>

record world =
  MAILER_USER :: string
  semester_data :: "error + Semester list"
  courses_json :: "string \<Rightarrow> error + Department list"
  send_error :: "Mail \<Rightarrow> error option"

text \<open>
  The watcher and what it writes to: the rows of the table, the cached catalogue
  (\<^verbatim>\<open>courseData\<close>, undefined until the first successful scan), the messages handed to
  the transport and the lines written to the console, both oldest first.
\<close>

record state =
  db :: "WatcherRow list"
  courseData :: "Department list option"
  outbox :: "Mail list"
  console :: "log_entry list"

subsection \<open>Strings\<close>

text \<open>A template literal renders an integer in decimal, with a minus sign when negative.\<close>

definition digit :: "nat \<Rightarrow> char" where
  "digit d = ''0123456789'' ! d"

function show_nat :: "nat \<Rightarrow> string" where
  "show_nat n = (if n < 10 then [digit n] else show_nat (n div 10) @ [digit (n mod 10)])"
  by pat_completeness auto
termination
  by (relation "measure (\<lambda>n. n)") auto

definition show_int :: "int \<Rightarrow> string" where
  "show_int i = (if i < 0 then CHR ''-'' # show_nat (nat (- i)) else show_nat (nat i))"

text \<open>\<^verbatim>\<open>Array.prototype.join\<close>.\<close>

fun join :: "string \<Rightarrow> string list \<Rightarrow> string" where
  "join sep [] = []"
| "join sep [x] = x"
| "join sep (x # y # ys) = x @ sep @ join sep (y # ys)"

subsection \<open>The table\<close>

text \<open>\<^verbatim>\<open>delete().where({ crn })\<close>\<close>

definition delete_where :: "int \<Rightarrow> WatcherRow list \<Rightarrow> WatcherRow list" where
  "delete_where c rows = filter (\<lambda>r. row_crn r \<noteq> c) rows"

text \<open>
  \<^verbatim>\<open>insert({ crn, emails: [email] }).onConflict('crn').merge({ emails: watchers.emails || EXCLUDED.emails })\<close>:
  the row in conflict gets the new address appended to its array (\<^verbatim>\<open>||\<close> concatenates
  arrays), and without a conflict the new row is inserted.
\<close>

fun upsert :: "int \<Rightarrow> string \<Rightarrow> WatcherRow list \<Rightarrow> WatcherRow list" where
  "upsert c e [] = [\<lparr>row_crn = c, emails = [e]\<rparr>]"
| "upsert c e (r # rs) =
     (if row_crn r = c then r\<lparr>emails := emails r @ [e]\<rparr> # rs else r # upsert c e rs)"

text \<open>\<^verbatim>\<open>ARRAY_REMOVE(emails, email)\<close> drops every element equal to the address.\<close>

definition array_remove :: "string \<Rightarrow> WatcherRow \<Rightarrow> WatcherRow" where
  "array_remove e r = r\<lparr>emails := filter (\<lambda>x. x \<noteq> e) (emails r)\<rparr>"

text \<open>
  The update of \<^verbatim>\<open>purge\<close>, with its optional \<^verbatim>\<open>where\<close>; the second component is
  the number of rows the statement updated.
\<close>

definition update_remove :: "string \<Rightarrow> int option \<Rightarrow> WatcherRow list \<Rightarrow> WatcherRow list \<times> nat" where
  "update_remove e wh rows =
     (case wh of
        None \<Rightarrow> (map (array_remove e) rows, length rows)
      | Some c \<Rightarrow> (map (\<lambda>r. if row_crn r = c then array_remove e r else r) rows,
                   length (filter (\<lambda>r. row_crn r = c) rows)))"

subsection \<open>Effects\<close>

definition console_write :: "log_entry \<Rightarrow> state \<Rightarrow> state" where
  "console_write l s = s\<lparr>console := console s @ [l]\<rparr>"

text \<open>
  \<^verbatim>\<open>transporter.sendMail(mail, (err) => { if (err) console.error(err) })\<close>: the message
  goes to the transport, and an error of the delivery is written to the console and
  nothing else.
\<close>

definition sendMail :: "world \<Rightarrow> Mail \<Rightarrow> state \<Rightarrow> state" where
  "sendMail w m s =
     (let s1 = s\<lparr>outbox := outbox s @ [m]\<rparr>
      in case send_error w m of
           None \<Rightarrow> s1
         | Some err \<Rightarrow> console_write (Err err) s1)"

subsection \<open>\<^verbatim>\<open>scan\<close>\<close>

text \<open>
  The two requests of \<^verbatim>\<open>scan\<close>. \<^verbatim>\<open>semesters[semesters.length - 1]\<close> is
  \<^verbatim>\<open>undefined\<close> for an empty listing, and reading \<^verbatim>\<open>.path\<close> of it throws.
\<close>

definition fetch :: "world \<Rightarrow> error + Department list" where
  "fetch w =
     (case semester_data w of
        Inl e \<Rightarrow> Inl e
      | Inr semesters \<Rightarrow>
          (case semesters of
             [] \<Rightarrow> Inl TypeError
           | _ # _ \<Rightarrow> courses_json w (path (last semesters))))"

text \<open>
  \<^verbatim>\<open>for (const listener of rows) listeners.set(listener.crn, listener.emails)\<close>
\<close>

definition build_listeners :: "WatcherRow list \<Rightarrow> (int \<rightharpoonup> string list)" where
  "build_listeners rows = foldl (\<lambda>m listener. m(row_crn listener \<mapsto> emails listener)) Map.empty rows"

text \<open>\<^verbatim>\<open>listeners.get(section.crn)?.join(', ') ?? ''\<close>\<close>

definition recipients :: "(int \<rightharpoonup> string list) \<Rightarrow> Section \<Rightarrow> string" where
  "recipients listeners section =
     (case listeners (crn section) of Some es \<Rightarrow> join '', '' es | None \<Rightarrow> [])"

definition seat_mail :: "world \<Rightarrow> (int \<rightharpoonup> string list) \<Rightarrow> Course \<Rightarrow> Section \<Rightarrow> Mail" where
  "seat_mail w listeners course section =
     \<lparr>mail_to = recipients listeners section,
      from_name = ''QuACS Birdwatch'',
      from_address = MAILER_USER w,
      subject = ''Course ['' @ title course @ ''] section ['' @ sec section
                 @ ''] has a seat available!'',
      mail_text = show_int (rem section) @ ''/'' @ show_int (cap section)
                 @ '' seats available''\<rparr>"

text \<open>The body of the innermost loop.\<close>

definition visit_section ::
    "world \<Rightarrow> (int \<rightharpoonup> string list) \<Rightarrow> Course \<Rightarrow> Section \<Rightarrow> state \<Rightarrow> state" where
  "visit_section w listeners course section s =
     (if listeners (crn section) \<noteq> None \<and> rem section > 0 then
        let s1 = console_write (Log (''Emailing ['' @ recipients listeners section @ '']'')) s;
            s2 = sendMail w (seat_mail w listeners course section) s1;
            s3 = s2\<lparr>db := delete_where (crn section) (db s2)\<rparr>
        in console_write (Log (''Deleted '' @ show_int (crn section))) s3
      else s)"

fun for_sections ::
    "world \<Rightarrow> (int \<rightharpoonup> string list) \<Rightarrow> Course \<Rightarrow> Section list \<Rightarrow> state \<Rightarrow> state" where
  "for_sections w listeners course [] s = s"
| "for_sections w listeners course (section # rest) s =
     for_sections w listeners course rest (visit_section w listeners course section s)"

fun for_courses ::
    "world \<Rightarrow> (int \<rightharpoonup> string list) \<Rightarrow> Course list \<Rightarrow> state \<Rightarrow> state" where
  "for_courses w listeners [] s = s"
| "for_courses w listeners (course # rest) s =
     for_courses w listeners rest (for_sections w listeners course (sections course) s)"

fun for_departments ::
    "world \<Rightarrow> (int \<rightharpoonup> string list) \<Rightarrow> Department list \<Rightarrow> state \<Rightarrow> state" where
  "for_departments w listeners [] s = s"
| "for_departments w listeners (department # rest) s =
     for_departments w listeners rest (for_courses w listeners (courses department) s)"

text \<open>
  \<^verbatim>\<open>scan\<close> reads the table when it starts; a failed request rejects the promise it
  returns, and neither callback of the chain runs.
\<close>

definition scan :: "world \<Rightarrow> state \<Rightarrow> (error + unit) \<times> state" where
  "scan w s =
     (let s0 = console_write (Info ''Beginning scan...'') s;
          rows = db s0
      in case fetch w of
           Inl e \<Rightarrow> (Inl e, s0)
         | Inr departments \<Rightarrow>
             (let s1 = s0\<lparr>courseData := Some departments\<rparr>;
                  listeners = build_listeners rows
              in (Inr (), for_departments w listeners departments s1)))"

subsection \<open>\<^verbatim>\<open>register\<close>\<close>

text \<open>The search loops of \<^verbatim>\<open>register\<close>, each left at the first hit.\<close>

fun found_in_sections :: "int \<Rightarrow> Section list \<Rightarrow> bool" where
  "found_in_sections c [] = False"
| "found_in_sections c (section # rest) =
     (if crn section = c then True else found_in_sections c rest)"

fun found_in_courses :: "int \<Rightarrow> Course list \<Rightarrow> bool" where
  "found_in_courses c [] = False"
| "found_in_courses c (course # rest) =
     (if found_in_sections c (sections course) then True else found_in_courses c rest)"

fun found_in_departments :: "int \<Rightarrow> Department list \<Rightarrow> bool" where
  "found_in_departments c [] = False"
| "found_in_departments c (department # rest) =
     (if found_in_courses c (courses department) then True else found_in_departments c rest)"

text \<open>
  Without a cached catalogue \<^verbatim>\<open>register\<close> scans first, and the rejection of that scan
  is its own. \<^verbatim>\<open>this.courseData!\<close> is only an assertion of the type checker: iterating
  \<^verbatim>\<open>undefined\<close> throws.
\<close>

definition register :: "world \<Rightarrow> int \<Rightarrow> string \<Rightarrow> state \<Rightarrow> (error + unit) \<times> state" where
  "register w c email s =
     (case (if courseData s = None then scan w s else (Inr (), s)) of
        (Inl e, s1) \<Rightarrow> (Inl e, s1)
      | (Inr _, s1) \<Rightarrow>
          (case courseData s1 of
             None \<Rightarrow> (Inl TypeError, s1)
           | Some departments \<Rightarrow>
               if \<not> found_in_departments c departments then (Inl NotFound, s1)
               else (Inr (),
                     console_write (Log (''added '' @ email @ '' to '' @ show_int c))
                       (s1\<lparr>db := upsert c email (db s1)\<rparr>))))"

subsection \<open>\<^verbatim>\<open>purge\<close>\<close>

text \<open>
  \<^verbatim>\<open>if (crn)\<close> holds for a number other than 0; the line on the console tests
  \<^verbatim>\<open>crn ?? ...\<close>, which holds for every number.
\<close>

definition purge :: "string \<Rightarrow> int option \<Rightarrow> state \<Rightarrow> (error + unit) \<times> state" where
  "purge email c s =
     (let wh = (case c of None \<Rightarrow> None | Some n \<Rightarrow> if n \<noteq> 0 then Some n else None);
          (rows, num) = update_remove email wh (db s);
          s1 = s\<lparr>db := rows\<rparr>
      in (Inr (),
          console_write
            (Log (''removed '' @ email @ '' from ''
                  @ (case c of Some n \<Rightarrow> show_int n | None \<Rightarrow> show_nat num @ '' CRNs'')))
            s1))"

subsection \<open>The catalogue in the order the loops visit it\<close>

text \<open>
  Department by department, course by course, section by section; a section travels with
  its course, whose title the message needs.
\<close>

definition traversal :: "Department list \<Rightarrow> (Course \<times> Section) list" where
  "traversal departments =
     concat (map (\<lambda>d. concat (map (\<lambda>c. map (Pair c) (sections c)) (courses d))) departments)"

text \<open>A section matches when the index has its CRN as a key and it has a seat left.\<close>

definition is_match :: "(int \<rightharpoonup> string list) \<Rightarrow> Course \<times> Section \<Rightarrow> bool" where
  "is_match listeners p = (crn (snd p) \<in> dom listeners \<and> 0 < rem (snd p))"

definition matches :: "(int \<rightharpoonup> string list) \<Rightarrow> Department list \<Rightarrow> (Course \<times> Section) list" where
  "matches listeners departments = filter (is_match listeners) (traversal departments)"

text \<open>The loop body on a pair of the traversal.\<close>

definition visit :: "world \<Rightarrow> (int \<rightharpoonup> string list) \<Rightarrow> Course \<times> Section \<Rightarrow> state \<Rightarrow> state" where
  "visit w listeners p = visit_section w listeners (fst p) (snd p)"

text \<open>The messages a call added to the transport.\<close>

definition sent :: "state \<Rightarrow> state \<Rightarrow> Mail list" where
  "sent s s' = drop (length (outbox s)) (outbox s')"

text \<open>The subscribers of a section, as a scan that starts on these rows would read them.\<close>

definition subscribers :: "WatcherRow list \<Rightarrow> int \<Rightarrow> string list" where
  "subscribers rows c = (case build_listeners rows c of None \<Rightarrow> [] | Some es \<Rightarrow> es)"

subsection \<open>The scenario of the specification, and variations of it\<close>

definition scenario_catalog :: "Department list" where
  "scenario_catalog =
     [\<lparr>code = ''CSCI'',
       courses =
         [\<lparr>crse = ''1200'', course_id = ''CSCI-1200'',
           sections = [\<lparr>sec = ''01'', cap = 30, rem = 2, crn = 1234\<rparr>],
           title = ''Data Structures''\<rparr>]\<rparr>]"

definition scenario_world :: world where
  "scenario_world =
     \<lparr>MAILER_USER = ''birdwatch@rpi.edu'',
      semester_data = Inr [\<lparr>path = ''semester_data/202309''\<rparr>, \<lparr>path = ''semester_data/202401''\<rparr>],
      courses_json = (\<lambda>p. if p = ''semester_data/202401'' then Inr scenario_catalog else Inl FetchError),
      send_error = (\<lambda>m. None)\<rparr>"

definition scenario_state :: state where
  "scenario_state =
     \<lparr>db = [\<lparr>row_crn = 1234, emails = [''u@rpi.edu'']\<rparr>],
      courseData = None, outbox = [], console = []\<rparr>"

text \<open>The catalogue is cached and nobody has subscribed yet.\<close>

definition cached_state :: state where
  "cached_state = \<lparr>db = [], courseData = Some scenario_catalog, outbox = [], console = []\<rparr>"

text \<open>The listing cannot be retrieved.\<close>

definition offline_world :: world where
  "offline_world = scenario_world\<lparr>semester_data := Inl FetchError\<rparr>"

text \<open>The listing is retrieved and has no entry.\<close>

definition empty_listing_world :: world where
  "empty_listing_world = scenario_world\<lparr>semester_data := Inr []\<rparr>"

text \<open>A catalogue that lists CRN 1234 under two courses.\<close>

definition crosslisted_catalog :: "Department list" where
  "crosslisted_catalog =
     [\<lparr>code = ''CSCI'',
       courses =
         [\<lparr>crse = ''1200'', course_id = ''CSCI-1200'',
           sections = [\<lparr>sec = ''01'', cap = 30, rem = 2, crn = 1234\<rparr>],
           title = ''Data Structures''\<rparr>]\<rparr>,
      \<lparr>code = ''ECSE'',
       courses =
         [\<lparr>crse = ''1200'', course_id = ''ECSE-1200'',
           sections = [\<lparr>sec = ''01'', cap = 30, rem = 2, crn = 1234\<rparr>],
           title = ''Data Structures''\<rparr>]\<rparr>]"

definition crosslisted_world :: world where
  "crosslisted_world = scenario_world\<lparr>courses_json := (\<lambda>p. Inr crosslisted_catalog)\<rparr>"

text \<open>Two rows, one of them for the number 0, with the same subscriber.\<close>

definition two_rows_state :: state where
  "two_rows_state =
     \<lparr>db = [\<lparr>row_crn = 0, emails = [''u@rpi.edu'']\<rparr>,
            \<lparr>row_crn = 1234, emails = [''u@rpi.edu'', ''v@rpi.edu'']\<rparr>],
      courseData = None, outbox = [], console = []\<rparr>"

section \<open>Properties\<close>

subsection \<open>The effects of a scan\<close>

lemma console_write_simps:
  "db (console_write l s) = db s" "outbox (console_write l s) = outbox s"
  "courseData (console_write l s) = courseData s"
  "console (console_write l s) = console s @ [l]"
  by (simp_all add: console_write_def)

lemma sendMail_simps:
  "db (sendMail w m s) = db s" "outbox (sendMail w m s) = outbox s @ [m]"
  "courseData (sendMail w m s) = courseData s"
  by (simp_all add: sendMail_def console_write_def Let_def split: option.splits)

lemma visit_outbox:
  "outbox (visit w L p s) = outbox s @ (if is_match L p then [seat_mail w L (fst p) (snd p)] else [])"
  by (auto simp: visit_def visit_section_def is_match_def console_write_simps sendMail_simps Let_def)

lemma visit_db:
  "db (visit w L p s) = (if is_match L p then delete_where (crn (snd p)) (db s) else db s)"
  by (auto simp: visit_def visit_section_def is_match_def console_write_simps sendMail_simps Let_def)

lemma visit_courseData: "courseData (visit w L p s) = courseData s"
  by (auto simp: visit_def visit_section_def console_write_simps sendMail_simps Let_def)

lemma fold_visit_outbox:
  "outbox (fold (visit w L) ps s) =
     outbox s @ map (\<lambda>p. seat_mail w L (fst p) (snd p)) (filter (is_match L) ps)"
  by (induction ps arbitrary: s) (simp_all add: visit_outbox)

lemma fold_visit_db:
  "db (fold (visit w L) ps s) =
     filter (\<lambda>r. row_crn r \<notin> (crn \<circ> snd) ` set (filter (is_match L) ps)) (db s)"
proof (induction ps arbitrary: s)
  case Nil
  show ?case by simp
next
  case (Cons p ps)
  show ?case
    by (auto simp: Cons visit_db delete_where_def intro!: filter_cong)
qed

lemma fold_visit_courseData: "courseData (fold (visit w L) ps s) = courseData s"
  by (induction ps arbitrary: s) (simp_all add: visit_courseData)

lemma for_sections_fold:
  "for_sections w L c xs s = fold (visit w L) (map (Pair c) xs) s"
  by (induction xs arbitrary: s) (simp_all add: visit_def)

lemma for_courses_fold:
  "for_courses w L cs s =
     fold (visit w L) (concat (map (\<lambda>c. map (Pair c) (sections c)) cs)) s"
  by (induction cs arbitrary: s) (simp_all add: for_sections_fold)

lemma for_departments_fold:
  "for_departments w L ds s = fold (visit w L) (traversal ds) s"
  unfolding traversal_def
  by (induction ds arbitrary: s) (simp_all add: for_courses_fold)

lemma scan_ok:
  "fetch w = Inr ds \<Longrightarrow>
     scan w s = (Inr (), fold (visit w (build_listeners (db s))) (traversal ds)
                  (console_write (Info ''Beginning scan...'') s\<lparr>courseData := Some ds\<rparr>))"
  by (simp add: scan_def Let_def for_departments_fold console_write_simps)

lemma scan_failed:
  "fetch w = Inl e \<Longrightarrow> scan w s = (Inl e, console_write (Info ''Beginning scan...'') s)"
  by (simp add: scan_def Let_def)

lemma dom_foldl_listeners:
  "dom (foldl (\<lambda>m listener. m(row_crn listener \<mapsto> emails listener)) m0 rows)
     = dom m0 \<union> row_crn ` set rows"
  by (induction rows arbitrary: m0) auto

lemma dom_build_listeners: "dom (build_listeners rows) = row_crn ` set rows"
  by (simp add: build_listeners_def dom_foldl_listeners)

lemma fetch_send_error: "fetch (w\<lparr>send_error := f\<rparr>) = fetch w"
  by (simp add: fetch_def split: sum.splits list.splits)

lemma scan_db:
  "fetch w = Inr ds \<Longrightarrow>
     db (snd (scan w s)) =
       filter (\<lambda>r. row_crn r \<notin> (crn \<circ> snd) ` set (matches (build_listeners (db s)) ds)) (db s)"
  by (simp add: scan_ok fold_visit_db console_write_simps matches_def)

lemma scan_outbox:
  "fetch w = Inr ds \<Longrightarrow>
     outbox (snd (scan w s)) =
       outbox s @ map (\<lambda>p. seat_mail w (build_listeners (db s)) (fst p) (snd p))
                      (matches (build_listeners (db s)) ds)"
  by (simp add: scan_ok fold_visit_outbox console_write_simps matches_def)

lemma scan_sent:
  "fetch w = Inr ds \<Longrightarrow>
     sent s (snd (scan w s)) =
       map (\<lambda>p. seat_mail w (build_listeners (db s)) (fst p) (snd p))
           (matches (build_listeners (db s)) ds)"
  by (simp add: sent_def scan_outbox)

subsection \<open>Retirement of a matched section\<close>

text \<open>
  C1. When the catalogue is fetched, a section that the loops visit, whose CRN has a row
  in the table and which has a seat left, has no row in the table after the scan. The
  table after the scan is the same whatever the transport answers to the messages: the
  delete does not depend on the delivery.
\<close>

theorem scan_deletes_matched_row:
  assumes "fetch w = Inr ds"
    and "(course, section) \<in> set (traversal ds)"
    and "crn section \<in> row_crn ` set (db s)"
    and "0 < rem section"
  shows "fst (scan w s) = Inr ()
       \<and> crn section \<notin> row_crn ` set (db (snd (scan w s)))
       \<and> db (snd (scan (w\<lparr>send_error := f\<rparr>) s)) = db (snd (scan w s))"
proof -
  let ?L = "build_listeners (db s)"
  have "is_match ?L (course, section)"
    using assms(3,4) by (simp add: is_match_def dom_build_listeners)
  with assms(2) have m: "(course, section) \<in> set (matches ?L ds)"
    by (simp add: matches_def)
  have "crn section \<in> (crn \<circ> snd) ` set (matches ?L ds)"
    using m by force
  then have gone: "crn section \<notin> row_crn ` set (db (snd (scan w s)))"
    unfolding scan_db [OF assms(1)] by force
  have "fetch (w\<lparr>send_error := f\<rparr>) = Inr ds"
    using assms(1) by (simp add: fetch_send_error)
  then have "db (snd (scan (w\<lparr>send_error := f\<rparr>) s)) = db (snd (scan w s))"
    by (simp add: scan_db assms(1))
  with gone show ?thesis
    by (simp add: scan_ok [OF assms(1)])
qed

text \<open>The scenario, with a transport that fails every delivery.\<close>

theorem scan_deletes_matched_row_witness:
  "fetch (scenario_world\<lparr>send_error := (\<lambda>m. Some MailError)\<rparr>) = Inr scenario_catalog
   \<and> (hd (courses (hd scenario_catalog)), \<lparr>sec = ''01'', cap = 30, rem = 2, crn = 1234\<rparr>)
        \<in> set (traversal scenario_catalog)
   \<and> crn \<lparr>sec = ''01'', cap = 30, rem = 2, crn = 1234\<rparr> \<in> row_crn ` set (db scenario_state)
   \<and> 0 < rem \<lparr>sec = ''01'', cap = 30, rem = 2, crn = 1234\<rparr>
   \<and> fst (scan (scenario_world\<lparr>send_error := (\<lambda>m. Some MailError)\<rparr>) scenario_state) = Inr ()
   \<and> (1234::int) \<notin> row_crn ` set (db (snd (scan (scenario_world\<lparr>send_error := (\<lambda>m. Some MailError)\<rparr>) scenario_state)))
   \<and> db (snd (scan scenario_world scenario_state))
       = db (snd (scan (scenario_world\<lparr>send_error := (\<lambda>m. Some MailError)\<rparr>) scenario_state))"
proof -
  let ?w = "scenario_world\<lparr>send_error := (\<lambda>m. Some MailError)\<rparr>"
  let ?x = "\<lparr>sec = ''01'', cap = 30, rem = 2, crn = 1234\<rparr>"
  have f: "fetch ?w = Inr scenario_catalog"
    by (simp add: fetch_def scenario_world_def)
  have t: "(hd (courses (hd scenario_catalog)), ?x) \<in> set (traversal scenario_catalog)"
    by (simp add: traversal_def scenario_catalog_def)
  have r: "crn ?x \<in> row_crn ` set (db scenario_state)"
    by (simp add: scenario_state_def)
  have p: "0 < rem ?x" by simp
  have same: "?w\<lparr>send_error := send_error scenario_world\<rparr> = scenario_world"
    by (simp add: scenario_world_def)
  show ?thesis
    using scan_deletes_matched_row [OF f t r p, of "send_error scenario_world"] f t r
    by (simp add: same)
qed

subsection \<open>Which sections match\<close>

text \<open>
  C3. When the catalogue is fetched, the messages of the scan are those of the sections of
  the catalogue, in the order department, course, section, whose CRN is a key of the index
  built from the rows the table had when the scan began and whose remaining count is
  greater than 0: one message for each such section and none for any other.
\<close>

theorem scan_matches_in_traversal_order:
  assumes "fetch w = Inr ds"
  shows "sent s (snd (scan w s)) =
           map (\<lambda>p. seat_mail w (build_listeners (db s)) (fst p) (snd p))
             (filter (\<lambda>p. crn (snd p) \<in> dom (build_listeners (db s)) \<and> 0 < rem (snd p))
                (traversal ds))"
proof -
  have "is_match (build_listeners (db s)) =
          (\<lambda>p. crn (snd p) \<in> dom (build_listeners (db s)) \<and> 0 < rem (snd p))"
    by (rule ext) (simp add: is_match_def)
  then show ?thesis
    by (simp add: scan_sent [OF assms] matches_def)
qed

theorem scan_matches_in_traversal_order_witness:
  "fetch scenario_world = Inr scenario_catalog
   \<and> sent scenario_state (snd (scan scenario_world scenario_state)) =
       [\<lparr>mail_to = ''u@rpi.edu'', from_name = ''QuACS Birdwatch'',
         from_address = ''birdwatch@rpi.edu'',
         subject = ''Course [Data Structures] section [01] has a seat available!'',
         mail_text = ''2/30 seats available''\<rparr>]"
proof -
  have f: "fetch scenario_world = Inr scenario_catalog"
    by (simp add: fetch_def scenario_world_def)
  show ?thesis
    using scan_matches_in_traversal_order [OF f, of scenario_state] f
    by (simp add: traversal_def scenario_catalog_def scenario_state_def scenario_world_def
        build_listeners_def seat_mail_def recipients_def show_int_def digit_def)
qed

subsection \<open>Registration of an unknown section\<close>

lemma found_in_sections_iff: "found_in_sections c xs \<longleftrightarrow> c \<in> crn ` set xs"
  by (induction xs) auto

lemma crn_of_pairs: "(\<lambda>p. crn (snd p)) ` Pair c ` set xs = crn ` set xs"
  by (simp add: image_comp)

lemma found_in_courses_iff:
  "found_in_courses c cs \<longleftrightarrow>
     c \<in> (crn \<circ> snd) ` set (concat (map (\<lambda>c. map (Pair c) (sections c)) cs))"
  by (induction cs) (simp_all add: found_in_sections_iff image_Un crn_of_pairs)

lemma found_in_departments_iff:
  "found_in_departments c ds \<longleftrightarrow> c \<in> (crn \<circ> snd) ` set (traversal ds)"
  unfolding traversal_def
  by (induction ds) (simp_all add: found_in_courses_iff image_Un)

text \<open>
  C4. With a catalogue cached, registering a CRN that no section of the cached catalogue
  has fails with the error "not found" and leaves the whole state, the table included, as
  it was.
\<close>

theorem register_unknown_section:
  assumes "courseData s = Some ds"
    and "c \<notin> (crn \<circ> snd) ` set (traversal ds)"
  shows "register w c email s = (Inl NotFound, s)"
  using assms by (simp add: register_def found_in_departments_iff)

theorem register_unknown_section_witness:
  "courseData cached_state = Some scenario_catalog
   \<and> (999999::int) \<notin> (crn \<circ> snd) ` set (traversal scenario_catalog)
   \<and> register scenario_world 999999 ''a@x.com'' cached_state = (Inl NotFound, cached_state)"
proof -
  have c: "courseData cached_state = Some scenario_catalog"
    by (simp add: cached_state_def)
  have n: "(999999::int) \<notin> (crn \<circ> snd) ` set (traversal scenario_catalog)"
    by (simp add: traversal_def scenario_catalog_def)
  show ?thesis
    using register_unknown_section [OF c n, of scenario_world "''a@x.com''"] c n by simp
qed

subsection \<open>A failed fetch\<close>

text \<open>
  C5, as the code has it. When one of the two requests fails, the scan returns that
  failure to its caller; the cached catalogue, the table and the transport are as before,
  and the console has one more line, the one written when the scan began. Nothing is
  written to the console about the failure.
\<close>

theorem scan_fetch_failure:
  assumes "fetch w = Inl e"
  shows "fst (scan w s) = Inl e
       \<and> courseData (snd (scan w s)) = courseData s
       \<and> db (snd (scan w s)) = db s
       \<and> outbox (snd (scan w s)) = outbox s
       \<and> console (snd (scan w s)) = console s @ [Info ''Beginning scan...'']"
  using assms by (simp add: scan_failed console_write_simps)

text \<open>The listing cannot be retrieved while a catalogue is cached: the cache is kept.\<close>

theorem scan_fetch_failure_witness:
  "fetch offline_world = Inl FetchError
   \<and> fst (scan offline_world cached_state) = Inl FetchError
   \<and> courseData (snd (scan offline_world cached_state)) = Some scenario_catalog
   \<and> db (snd (scan offline_world cached_state)) = []
   \<and> outbox (snd (scan offline_world cached_state)) = []
   \<and> console (snd (scan offline_world cached_state)) = [Info ''Beginning scan...'']"
proof -
  have f: "fetch offline_world = Inl FetchError"
    by (simp add: fetch_def offline_world_def)
  show ?thesis
    using scan_fetch_failure [OF f, of cached_state] f
    by (simp add: cached_state_def)
qed

text \<open>
  The claim as it is written asks for the failure to be logged: here the listing cannot
  be retrieved, and the console holds the opening line only.
\<close>

theorem scan_fetch_failure_not_logged:
  "fetch offline_world = Inl FetchError
   \<and> console (snd (scan offline_world scenario_state)) = [Info ''Beginning scan...'']
   \<and> Err FetchError \<notin> set (console (snd (scan offline_world scenario_state)))"
  by (simp add: scan_def fetch_def offline_world_def scenario_state_def console_write_def)

subsection \<open>An empty listing\<close>

text \<open>
  C10. When the listing of the data releases is empty, no catalogue is fetched: the scan
  fails with the type error of reading the path of the missing last entry, the cached
  catalogue is not replaced, and no message is sent and no row deleted.
\<close>

theorem scan_empty_listing:
  assumes "semester_data w = Inr []"
  shows "fetch w = Inl TypeError
       \<and> fst (scan w s) = Inl TypeError
       \<and> courseData (snd (scan w s)) = courseData s
       \<and> outbox (snd (scan w s)) = outbox s
       \<and> db (snd (scan w s)) = db s"
proof -
  have "fetch w = Inl TypeError"
    using assms by (simp add: fetch_def)
  then show ?thesis
    by (simp add: scan_failed console_write_simps)
qed

theorem scan_empty_listing_witness:
  "semester_data empty_listing_world = Inr []
   \<and> fetch empty_listing_world = Inl TypeError
   \<and> fst (scan empty_listing_world cached_state) = Inl TypeError
   \<and> courseData (snd (scan empty_listing_world cached_state)) = Some scenario_catalog
   \<and> outbox (snd (scan empty_listing_world cached_state)) = []
   \<and> db (snd (scan empty_listing_world cached_state)) = []"
proof -
  have l: "semester_data empty_listing_world = Inr []"
    by (simp add: empty_listing_world_def)
  show ?thesis
    using scan_empty_listing [OF l, of cached_state] l
    by (simp add: cached_state_def)
qed

subsection \<open>The index and the table\<close>

lemma foldl_listeners:
  "foldl (\<lambda>m listener. m(row_crn listener \<mapsto> emails listener)) m0 rows
     = m0 ++ map_of (rev (map (\<lambda>r. (row_crn r, emails r)) rows))"
  by (induction rows arbitrary: m0) simp_all

lemma map_of_rev_distinct:
  "distinct (map fst xs) \<Longrightarrow> map_of (rev xs) = map_of xs"
proof (induction xs)
  case Nil
  show ?case by simp
next
  case (Cons x xs)
  then have "map_of xs (fst x) = None"
    by (simp add: map_of_eq_None_iff)
  with Cons show ?case
    by (cases x) (auto simp: map_add_def fun_eq_iff split: option.splits)
qed

lemma build_listeners_map_of:
  assumes "distinct (map row_crn rows)"
  shows "build_listeners rows = map_of (map (\<lambda>r. (row_crn r, emails r)) rows)"
proof -
  have "distinct (map fst (map (\<lambda>r. (row_crn r, emails r)) rows))"
    using assms by (simp add: comp_def)
  then show ?thesis
    by (simp add: build_listeners_def foldl_listeners map_of_rev_distinct)
qed

lemma map_of_upsert:
  "map_of (map (\<lambda>r. (row_crn r, emails r)) (upsert c e rows))
     = (map_of (map (\<lambda>r. (row_crn r, emails r)) rows))
         (c \<mapsto> (case map_of (map (\<lambda>r. (row_crn r, emails r)) rows) c of
                  None \<Rightarrow> [e] | Some es \<Rightarrow> es @ [e]))"
  by (induction rows) (auto simp: fun_eq_iff)

lemma upsert_keys:
  "map row_crn (upsert c e rows)
     = (if c \<in> row_crn ` set rows then map row_crn rows else map row_crn rows @ [c])"
  by (induction rows) auto

lemma upsert_distinct:
  "distinct (map row_crn rows) \<Longrightarrow> distinct (map row_crn (upsert c e rows))"
  by (simp add: upsert_keys)

lemma subscribers_upsert:
  assumes "distinct (map row_crn rows)"
  shows "subscribers (upsert c e rows) c' =
           (if c' = c then subscribers rows c @ [e] else subscribers rows c')"
  by (simp add: subscribers_def build_listeners_map_of assms upsert_distinct map_of_upsert
      split: option.splits)

lemma register_known:
  assumes "courseData s = Some ds" and "c \<in> (crn \<circ> snd) ` set (traversal ds)"
  shows "register w c e s =
           (Inr (), console_write (Log (''added '' @ e @ '' to '' @ show_int c))
                      (s\<lparr>db := upsert c e (db s)\<rparr>))"
  using assms by (simp add: register_def found_in_departments_iff)

subsection \<open>Registering twice\<close>

text \<open>
  C2, as the code has it. With a catalogue cached that has the section, and a table with
  one row for a CRN at most, registering the same address for the section twice succeeds
  twice and appends the address to the subscribers of the section twice: the array
  concatenation of the upsert removes no duplicate. The subscribers of the other sections
  are as before, and the second registration adds no new member to the set of addresses.
\<close>

theorem register_twice_appends_twice:
  assumes "courseData s = Some ds"
    and "c \<in> (crn \<circ> snd) ` set (traversal ds)"
    and "distinct (map row_crn (db s))"
    and "register w c e s = (r1, s1)"
    and "register w' c e s1 = (r2, s2)"
  shows "r1 = Inr () \<and> r2 = Inr ()
       \<and> subscribers (db s2) c = subscribers (db s) c @ [e, e]
       \<and> set (subscribers (db s2) c) = set (subscribers (db s1) c)
       \<and> (c' \<noteq> c \<longrightarrow> subscribers (db s2) c' = subscribers (db s) c')"
proof -
  let ?s1 = "console_write (Log (''added '' @ e @ '' to '' @ show_int c))
               (s\<lparr>db := upsert c e (db s)\<rparr>)"
  have 1: "r1 = Inr ()" "s1 = ?s1"
    using register_known [OF assms(1,2), of w e] assms(4) by simp_all
  have c1: "courseData s1 = Some ds"
    by (simp add: 1 console_write_simps assms(1))
  have d1: "db s1 = upsert c e (db s)"
    by (simp add: 1 console_write_simps)
  have 2: "r2 = Inr ()" "db s2 = upsert c e (db s1)"
    using register_known [OF c1 assms(2), of w' e] assms(5)
    by (auto simp: console_write_simps)
  have dist1: "distinct (map row_crn (upsert c e (db s)))"
    by (simp add: upsert_distinct assms(3))
  have once: "subscribers (db s1) c = subscribers (db s) c @ [e]"
    by (simp add: d1 subscribers_upsert assms(3))
  have twice: "subscribers (db s2) c = subscribers (db s1) c @ [e]"
    by (simp add: 2 d1 subscribers_upsert dist1)
  have others: "c' \<noteq> c \<longrightarrow> subscribers (db s2) c' = subscribers (db s) c'"
    by (simp add: 2 d1 subscribers_upsert dist1 assms(3))
  show ?thesis
    using once twice others by (simp add: 1(1) 2(1))
qed

theorem register_twice_appends_twice_witness:
  "courseData cached_state = Some scenario_catalog
   \<and> (1234::int) \<in> (crn \<circ> snd) ` set (traversal scenario_catalog)
   \<and> distinct (map row_crn (db cached_state))
   \<and> fst (register scenario_world 1234 ''u@rpi.edu'' cached_state) = Inr ()
   \<and> fst (register scenario_world 1234 ''u@rpi.edu''
            (snd (register scenario_world 1234 ''u@rpi.edu'' cached_state))) = Inr ()
   \<and> subscribers (db (snd (register scenario_world 1234 ''u@rpi.edu''
            (snd (register scenario_world 1234 ''u@rpi.edu'' cached_state))))) 1234
       = [''u@rpi.edu'', ''u@rpi.edu'']"
proof -
  have c: "courseData cached_state = Some scenario_catalog"
    by (simp add: cached_state_def)
  have k: "(1234::int) \<in> (crn \<circ> snd) ` set (traversal scenario_catalog)"
    by (simp add: traversal_def scenario_catalog_def)
  have d: "distinct (map row_crn (db cached_state))"
    by (simp add: cached_state_def)
  have e: "subscribers (db cached_state) 1234 = []"
    by (simp add: cached_state_def subscribers_def build_listeners_def)
  show ?thesis
    using register_twice_appends_twice [OF c k d surjective_pairing surjective_pairing,
        of scenario_world "''u@rpi.edu''" scenario_world 1234] c k d e
    by simp
qed

text \<open>
  The claim as it is written asks for the address to be among the subscribers exactly
  once: after two registrations on an empty table it is there twice.
\<close>

theorem register_twice_duplicates:
  "db (snd (register scenario_world 1234 ''u@rpi.edu''
        (snd (register scenario_world 1234 ''u@rpi.edu'' cached_state))))
     = [\<lparr>row_crn = 1234, emails = [''u@rpi.edu'', ''u@rpi.edu'']\<rparr>]
   \<and> count_list (subscribers (db (snd (register scenario_world 1234 ''u@rpi.edu''
        (snd (register scenario_world 1234 ''u@rpi.edu'' cached_state))))) 1234) ''u@rpi.edu''
     = 2"
  by (simp add: register_def cached_state_def scenario_catalog_def console_write_def
      subscribers_def build_listeners_def)

subsection \<open>The text of a notification\<close>

text \<open>
  C7. When the catalogue is fetched, the scan sends one message for each match, in order,
  and the message of a match on a section with label s, remaining count r and capacity
  c of a course with title t has the subject "Course [t] section [s] has a seat
  available!" and the text "r/c seats available", the numbers in decimal.
\<close>

theorem scan_mail_subject_and_text:
  assumes "fetch w = Inr ds"
  shows "map (\<lambda>m. (subject m, mail_text m)) (sent s (snd (scan w s))) =
           map (\<lambda>p. (''Course ['' @ title (fst p) @ ''] section ['' @ sec (snd p)
                        @ ''] has a seat available!'',
                      show_int (rem (snd p)) @ ''/'' @ show_int (cap (snd p))
                        @ '' seats available''))
             (matches (build_listeners (db s)) ds)"
proof -
  let ?L = "build_listeners (db s)"
  have sent: "sent s (snd (scan w s)) =
      map (\<lambda>p. seat_mail w ?L (fst p) (snd p)) (matches ?L ds)"
    using assms by (rule scan_sent)
  have "subject (seat_mail w ?L c x) =
      ''Course ['' @ title c @ ''] section ['' @ sec x @ ''] has a seat available!''"
    and "mail_text (seat_mail w ?L c x) =
      show_int (rem x) @ ''/'' @ show_int (cap x) @ '' seats available''" for c x
    by (simp_all add: seat_mail_def)
  then show ?thesis
    unfolding sent by (simp add: comp_def)
qed

text \<open>The scenario: title "Data Structures", section "01", 2 of 30 seats.\<close>

theorem scan_mail_subject_and_text_witness:
  "fetch scenario_world = Inr scenario_catalog
   \<and> map (\<lambda>m. (subject m, mail_text m))
        (sent scenario_state (snd (scan scenario_world scenario_state))) =
       [(''Course [Data Structures] section [01] has a seat available!'',
         ''2/30 seats available'')]"
proof -
  have f: "fetch scenario_world = Inr scenario_catalog"
    by (simp add: fetch_def scenario_world_def)
  have m: "matches (build_listeners (db scenario_state)) scenario_catalog =
             traversal scenario_catalog"
    by (simp add: matches_def is_match_def traversal_def scenario_catalog_def
        scenario_state_def build_listeners_def)
  have "map (\<lambda>m. (subject m, mail_text m))
          (sent scenario_state (snd (scan scenario_world scenario_state))) =
        map (\<lambda>p. (''Course ['' @ title (fst p) @ ''] section ['' @ sec (snd p)
                     @ ''] has a seat available!'',
                   show_int (rem (snd p)) @ ''/'' @ show_int (cap (snd p))
                     @ '' seats available''))
          (traversal scenario_catalog)"
    using scan_mail_subject_and_text [OF f, of scenario_state] by (simp only: m)
  then show ?thesis
    using f by (simp add: traversal_def scenario_catalog_def show_int_def digit_def)
qed

subsection \<open>Notifications of one row\<close>

lemma filter_key_distinct:
  "distinct (map f xs) \<Longrightarrow> length (filter (\<lambda>x. f x = k) xs) \<le> 1"
proof (induction xs)
  case Nil
  show ?case by simp
next
  case (Cons x xs)
  show ?case
  proof (cases "f x = k")
    case True
    from Cons.prems have "f x \<notin> f ` set xs"
      by simp
    with True have "\<forall>y\<in>set xs. f y \<noteq> k"
      by (metis imageI)
    then have "filter (\<lambda>y. f y = k) xs = []"
      by (simp add: filter_empty_conv)
    with True show ?thesis by simp
  next
    case False
    with Cons show ?thesis by simp
  qed
qed

text \<open>
  C8, as the code has it. When the catalogue is fetched and no two of its sections have
  the same CRN, the scan sends one message for each match, and at most one of the matches
  is on a given CRN: no row is notified twice.
\<close>

theorem scan_one_attempt_per_row:
  assumes "fetch w = Inr ds"
    and "distinct (map (\<lambda>p. crn (snd p)) (traversal ds))"
  shows "sent s (snd (scan w s)) =
           map (\<lambda>p. seat_mail w (build_listeners (db s)) (fst p) (snd p))
             (matches (build_listeners (db s)) ds)
       \<and> length (filter (\<lambda>p. crn (snd p) = c) (matches (build_listeners (db s)) ds)) \<le> 1"
proof -
  have "distinct (map (\<lambda>p. crn (snd p)) (matches (build_listeners (db s)) ds))"
    unfolding matches_def using assms(2) by (rule distinct_map_filter)
  then have "length (filter (\<lambda>p. crn (snd p) = c) (matches (build_listeners (db s)) ds)) \<le> 1"
    by (rule filter_key_distinct)
  then show ?thesis
    by (simp add: scan_sent [OF assms(1)])
qed

theorem scan_one_attempt_per_row_witness:
  "fetch scenario_world = Inr scenario_catalog
   \<and> distinct (map (\<lambda>p. crn (snd p)) (traversal scenario_catalog))
   \<and> length (sent scenario_state (snd (scan scenario_world scenario_state))) = 1
   \<and> length (filter (\<lambda>p. crn (snd p) = 1234)
        (matches (build_listeners (db scenario_state)) scenario_catalog)) \<le> 1"
proof -
  have f: "fetch scenario_world = Inr scenario_catalog"
    by (simp add: fetch_def scenario_world_def)
  have d: "distinct (map (\<lambda>p. crn (snd p)) (traversal scenario_catalog))"
    by (simp add: traversal_def scenario_catalog_def)
  have m: "matches (build_listeners (db scenario_state)) scenario_catalog =
             traversal scenario_catalog"
    by (simp add: matches_def is_match_def traversal_def scenario_catalog_def
        scenario_state_def build_listeners_def)
  have "sent scenario_state (snd (scan scenario_world scenario_state)) =
          map (\<lambda>p. seat_mail scenario_world (build_listeners (db scenario_state)) (fst p) (snd p))
            (traversal scenario_catalog)
        \<and> length (filter (\<lambda>p. crn (snd p) = 1234)
            (matches (build_listeners (db scenario_state)) scenario_catalog)) \<le> 1"
    using scan_one_attempt_per_row [OF f d, of scenario_state 1234] by (simp only: m)
  then show ?thesis
    using f d by (simp add: traversal_def scenario_catalog_def)
qed

text \<open>
  The claim as it is written has no condition on the catalogue: with a catalogue that
  lists CRN 1234 under two courses, the one row of the table is notified twice in one
  scan.
\<close>

theorem scan_notifies_row_twice:
  "map row_crn (db scenario_state) = [1234]
   \<and> map mail_to (sent scenario_state (snd (scan crosslisted_world scenario_state)))
       = [''u@rpi.edu'', ''u@rpi.edu'']"
  by (simp add: scan_def fetch_def crosslisted_world_def scenario_world_def
      crosslisted_catalog_def scenario_state_def console_write_def build_listeners_def
      visit_section_def sendMail_def seat_mail_def recipients_def delete_where_def sent_def
      Let_def)

subsection \<open>Purging\<close>

lemma purge_scoped:
  "c \<noteq> 0 \<Longrightarrow>
     purge e (Some c) s =
       (Inr (), console_write (Log (''removed '' @ e @ '' from '' @ show_int c))
                  (s\<lparr>db := map (\<lambda>r. if row_crn r = c then array_remove e r else r) (db s)\<rparr>))"
  by (simp add: purge_def update_remove_def)

lemma purge_global:
  "purge e None s =
     (Inr (), console_write
                (Log (''removed '' @ e @ '' from '' @ show_nat (length (db s)) @ '' CRNs''))
                (s\<lparr>db := map (array_remove e) (db s)\<rparr>))"
  by (simp add: purge_def update_remove_def)

lemma purge_zero:
  "purge e (Some 0) s =
     (Inr (), console_write (Log (''removed '' @ e @ '' from '' @ show_int 0))
                (s\<lparr>db := map (array_remove e) (db s)\<rparr>))"
  by (simp add: purge_def update_remove_def)

lemma array_remove_emails: "e \<notin> set (emails (array_remove e r))"
  by (simp add: array_remove_def)

lemma array_remove_crn: "row_crn (array_remove e r) = row_crn r"
  by (simp add: array_remove_def)

text \<open>
  What the sixth claim says holds of a purge with a CRN other than 0 and of a purge with
  none: the first succeeds, keeps every row, each under its CRN, and changes the rows of
  that CRN only, which lose the address; the second succeeds and takes the address from
  every row, and its line on the console gives the number of rows.
\<close>

lemma purge_scoped_rows:
  assumes "c \<noteq> 0"
  shows "fst (purge e (Some c) s) = Inr ()"
    and "map row_crn (db (snd (purge e (Some c) s))) = map row_crn (db s)"
    and "i < length (db s) \<Longrightarrow> row_crn (db s ! i) \<noteq> c \<Longrightarrow>
           db (snd (purge e (Some c) s)) ! i = db s ! i"
    and "i < length (db s) \<Longrightarrow> row_crn (db s ! i) = c \<Longrightarrow>
           db (snd (purge e (Some c) s)) ! i = array_remove e (db s ! i)"
  using assms
  by (simp_all add: purge_scoped console_write_simps comp_def array_remove_crn if_distrib
      cong: if_cong)

lemma purge_global_rows:
  shows "fst (purge e None s) = Inr ()"
    and "db (snd (purge e None s)) = map (array_remove e) (db s)"
    and "console (snd (purge e None s)) =
           console s @ [Log (''removed '' @ e @ '' from '' @ show_nat (length (db s)) @ '' CRNs'')]"
  by (simp_all add: purge_global console_write_simps)

text \<open>
  C6 at the CRN 0. The table has a row for CRN 0 and a row for CRN 1234, and
  \<^verbatim>\<open>u@rpi.edu\<close> is on both. Purging the address with the CRN 0 takes it from the row
  of CRN 1234 too, while the console says that it was removed from 0.
\<close>

theorem purge_zero_not_scoped:
  "db (snd (purge ''u@rpi.edu'' (Some 0) two_rows_state))
     = [\<lparr>row_crn = 0, emails = []\<rparr>, \<lparr>row_crn = 1234, emails = [''v@rpi.edu'']\<rparr>]
   \<and> console (snd (purge ''u@rpi.edu'' (Some 0) two_rows_state))
     = [Log ''removed u@rpi.edu from 0'']"
  by (simp add: purge_def update_remove_def array_remove_def two_rows_state_def
      console_write_def show_int_def digit_def)

text \<open>
  C9. A purge with the CRN 0 does to the table what a purge with no CRN does: the address
  is taken from every row. A purge with another CRN changes the rows of that CRN only.
\<close>

theorem purge_zero_is_global:
  "db (snd (purge e (Some 0) s)) = db (snd (purge e None s))
   \<and> db (snd (purge e (Some 0) s)) = map (array_remove e) (db s)
   \<and> (\<forall>r \<in> set (db (snd (purge e (Some 0) s))). e \<notin> set (emails r))
   \<and> (c \<noteq> 0 \<longrightarrow>
        db (snd (purge e (Some c) s))
          = map (\<lambda>r. if row_crn r = c then array_remove e r else r) (db s))"
proof -
  have zero: "db (snd (purge e (Some 0) s)) = map (array_remove e) (db s)"
    by (simp add: purge_zero console_write_simps)
  have none: "db (snd (purge e None s)) = map (array_remove e) (db s)"
    by (simp add: purge_global console_write_simps)
  have gone: "\<forall>r \<in> set (map (array_remove e) (db s)). e \<notin> set (emails r)"
    by (simp add: array_remove_emails)
  have scoped: "c \<noteq> 0 \<longrightarrow>
      db (snd (purge e (Some c) s))
        = map (\<lambda>r. if row_crn r = c then array_remove e r else r) (db s)"
    by (simp add: purge_scoped console_write_simps)
  from gone scoped show ?thesis
    unfolding zero none by simp
qed

theorem purge_zero_is_global_witness:
  "db (snd (purge ''u@rpi.edu'' (Some 0) two_rows_state))
     = db (snd (purge ''u@rpi.edu'' None two_rows_state))
   \<and> db (snd (purge ''u@rpi.edu'' (Some 0) two_rows_state))
     = [\<lparr>row_crn = 0, emails = []\<rparr>, \<lparr>row_crn = 1234, emails = [''v@rpi.edu'']\<rparr>]
   \<and> (1234::int) \<noteq> 0
   \<and> db (snd (purge ''u@rpi.edu'' (Some 1234) two_rows_state))
     = [\<lparr>row_crn = 0, emails = [''u@rpi.edu'']\<rparr>, \<lparr>row_crn = 1234, emails = [''v@rpi.edu'']\<rparr>]"
proof -
  note g = purge_zero_is_global [of "''u@rpi.edu''" two_rows_state 1234]
  have all_rows: "map (array_remove ''u@rpi.edu'') (db two_rows_state)
      = [\<lparr>row_crn = 0, emails = []\<rparr>, \<lparr>row_crn = 1234, emails = [''v@rpi.edu'']\<rparr>]"
    by (simp add: two_rows_state_def array_remove_def)
  have one_row: "map (\<lambda>r. if row_crn r = 1234 then array_remove ''u@rpi.edu'' r else r)
        (db two_rows_state)
      = [\<lparr>row_crn = 0, emails = [''u@rpi.edu'']\<rparr>, \<lparr>row_crn = 1234, emails = [''v@rpi.edu'']\<rparr>]"
    by (simp add: two_rows_state_def array_remove_def)
  have 1: "db (snd (purge ''u@rpi.edu'' (Some 0) two_rows_state))
      = db (snd (purge ''u@rpi.edu'' None two_rows_state))"
    using g by blast
  have 2: "db (snd (purge ''u@rpi.edu'' (Some 0) two_rows_state))
      = [\<lparr>row_crn = 0, emails = []\<rparr>, \<lparr>row_crn = 1234, emails = [''v@rpi.edu'']\<rparr>]"
    using g unfolding all_rows by blast
  have 3: "db (snd (purge ''u@rpi.edu'' (Some 1234) two_rows_state))
      = [\<lparr>row_crn = 0, emails = [''u@rpi.edu'']\<rparr>, \<lparr>row_crn = 1234, emails = [''v@rpi.edu'']\<rparr>]"
    using g unfolding one_row by simp
  show ?thesis
    by (intro conjI) (rule 1, rule 2, simp, rule 3)
qed

subsection \<open>Registration without a cached catalogue\<close>

lemma scan_courseData:
  "fetch w = Inr ds \<Longrightarrow> courseData (snd (scan w s)) = Some ds"
  by (simp add: scan_ok fold_visit_courseData)

text \<open>
  Without a cached catalogue the registration scans first: for a CRN that the fetched
  catalogue does not have it fails with "not found" in the state the scan left.
\<close>

lemma register_unknown_after_scan:
  assumes "courseData s = None" and "fetch w = Inr ds"
    and "c \<notin> (crn \<circ> snd) ` set (traversal ds)"
  shows "register w c email s = (Inl NotFound, snd (scan w s))"
  using assms scan_courseData [OF assms(2), of s]
  by (simp add: register_def scan_ok found_in_departments_iff split: prod.splits)

end
